theory Spec2Isabelle
  imports Main "HOL-Library.Word"
begin

unbundle bit_operations_syntax

section \<open>Machine integers of the C++ sources\<close>

text \<open>
  \<open>uint8_t\<close> is an 8-bit word: its arithmetic wraps around, as C++ defines for unsigned
  types. \<open>long\<close> is signed; C++ leaves signed overflow and division by zero undefined, so
  both are faults of the model. The width of \<open>long\<close> depends on the platform (32 bits on
  the AVR and ARM boards, 64 on the host that runs the tests) and is the parameter \<open>lb\<close>.
\<close>

type_synonym uint8_t = "8 word"

datatype fault = DivisionByZero | SignedOverflow

definition LONG_MIN :: "nat \<Rightarrow> int" where
  "LONG_MIN lb = - (2 ^ (lb - 1))"

definition LONG_MAX :: "nat \<Rightarrow> int" where
  "LONG_MAX lb = 2 ^ (lb - 1) - 1"

definition in_long :: "nat \<Rightarrow> int \<Rightarrow> bool" where
  "in_long lb x \<longleftrightarrow> LONG_MIN lb \<le> x \<and> x \<le> LONG_MAX lb"

definition to_long :: "nat \<Rightarrow> int \<Rightarrow> fault + int" where
  "to_long lb x = (if in_long lb x then Inr x else Inl SignedOverflow)"

text \<open>C++ \<open>/\<close> on integers truncates towards zero; HOL's \<open>div\<close> rounds down.\<close>

definition tdiv :: "int \<Rightarrow> int \<Rightarrow> int" where
  "tdiv a b = (if (a < 0) = (b < 0) then \<bar>a\<bar> div \<bar>b\<bar> else - (\<bar>a\<bar> div \<bar>b\<bar>))"

definition long_sub :: "nat \<Rightarrow> int \<Rightarrow> int \<Rightarrow> fault + int" where
  "long_sub lb a b = to_long lb (a - b)"

definition long_add :: "nat \<Rightarrow> int \<Rightarrow> int \<Rightarrow> fault + int" where
  "long_add lb a b = to_long lb (a + b)"

definition long_mul :: "nat \<Rightarrow> int \<Rightarrow> int \<Rightarrow> fault + int" where
  "long_mul lb a b = to_long lb (a * b)"

definition long_div :: "nat \<Rightarrow> int \<Rightarrow> int \<Rightarrow> fault + int" where
  "long_div lb a b = (if b = 0 then Inl DivisionByZero else to_long lb (tdiv a b))"

section \<open>Banks and bankable outputs\<close>

text \<open>
  Modelled from the spec: \<open>Banks/BankableMIDIOutput.hpp\<close> and the address type
  \<open>MIDICNChannelAddress\<close> with its \<open>+\<close> are not among the sources. A Bank is a shared
  selection index; a Bankable Output holds a stride and reads the Bank's index on demand;
  the effective address is base address + index * stride.
\<close>

type_synonym MIDICNChannelAddress = nat

record Bank =
  index :: nat

record OutputBankConfig =
  stride :: nat

definition getAddressOffset :: "Bank \<Rightarrow> OutputBankConfig \<Rightarrow> nat" where
  "getAddressOffset bank config = index bank * stride config"

section \<open>Bankable::MIDIRotaryEncoder\<close>

text \<open>
  The object's fields. The \<open>Encoder\<close> member belongs to the PJRC library: the position
  that \<open>encoder.read()\<close> returns is an argument of \<open>update\<close>. The Bank is referenced, not
  owned, so its current value is an argument too. \<open>send\<close> is a template parameter: the
  event handed to it is part of the result of \<open>update\<close>.
\<close>

record MIDIRotaryEncoder =
  config :: OutputBankConfig
  address :: MIDICNChannelAddress
  speedMultiply :: uint8_t
  pulsesPerStep :: uint8_t
  previousPosition :: int

definition new_MIDIRotaryEncoder ::
  "OutputBankConfig \<Rightarrow> MIDICNChannelAddress \<Rightarrow> uint8_t \<Rightarrow> uint8_t \<Rightarrow> MIDIRotaryEncoder" where
  "new_MIDIRotaryEncoder cfg addr sm pps =
     \<lparr>config = cfg, address = addr, speedMultiply = sm, pulsesPerStep = pps,
      previousPosition = 0\<rparr>"

type_synonym event = "int \<times> MIDICNChannelAddress"

definition MIDIRotaryEncoder_update ::
  "nat \<Rightarrow> Bank \<Rightarrow> int \<Rightarrow> MIDIRotaryEncoder \<Rightarrow> fault + (event option \<times> MIDIRotaryEncoder)" where
  "MIDIRotaryEncoder_update lb bank currentPosition e =
     (let sendAddress = address e + getAddressOffset bank (config e) in
      case long_sub lb currentPosition (previousPosition e) of
        Inl f \<Rightarrow> Inl f
      | Inr d \<Rightarrow>
     (case long_div lb d (uint (pulsesPerStep e)) of
        Inl f \<Rightarrow> Inl f
      | Inr difference \<Rightarrow>
          if difference \<noteq> 0 then
            (case long_mul lb difference (uint (speedMultiply e)) of
               Inl f \<Rightarrow> Inl f
             | Inr v \<Rightarrow>
            (case long_mul lb difference (uint (pulsesPerStep e)) of
               Inl f \<Rightarrow> Inl f
             | Inr adv \<Rightarrow>
            (case long_add lb (previousPosition e) adv of
               Inl f \<Rightarrow> Inl f
             | Inr p \<Rightarrow> Inr (Some (v, sendAddress), e\<lparr>previousPosition := p\<rparr>))))
          else Inr (None, e)))"

section \<open>IncrementSelector\<close>

text \<open>
  Modelled from the spec: \<open>Selector.hpp\<close> is not among the sources. A Selector owns the
  setting index and the number of settings; \<open>get\<close> reads the index and
  \<open>getNumberOfSettings\<close> the count. Set-index rejects out-of-range values, by an
  assertion: \<open>set\<close> stores a setting that is below the number of settings and rejects any
  other one, which is a fault of the model. The type \<open>setting_t\<close> is declared in a header
  that is not among the sources either: it is an unsigned integer type, here a word of any
  width \<open>'w\<close>.
\<close>

datatype selector_fault = SettingOutOfRange

record 's Selector =
  setting :: 's
  numberOfSettings :: 's

definition Selector_get :: "('s, 'x) Selector_scheme \<Rightarrow> 's" where
  "Selector_get s = setting s"

definition Selector_set ::
  "('w::len) word \<Rightarrow> ('w word, 'x) Selector_scheme
     \<Rightarrow> selector_fault + ('w word, 'x) Selector_scheme" where
  "Selector_set newSetting s =
     (if newSetting < numberOfSettings s then Inr (s\<lparr>setting := newSetting\<rparr>)
      else Inl SettingOutOfRange)"

definition Selector_getNumberOfSettings :: "('s, 'x) Selector_scheme \<Rightarrow> 's" where
  "Selector_getNumberOfSettings s = numberOfSettings s"

text \<open>
  The class adds the \<open>wrap\<close> flag. Its \<open>button\<close> member belongs to the hardware layer: the
  state that \<open>button.getState()\<close> reports is an argument of \<open>update\<close>.
\<close>

record 's IncrementSelector = "'s Selector" +
  wrap :: bool

datatype IncrementButton_State = Nothing | Increment

text \<open>
  \<open>setting++\<close> and \<open>setting - 1\<close> are computed on an unsigned type (after promotion to
  \<open>int\<close> and conversion back, for a narrow one), so both wrap around.
\<close>

definition IncrementSelector_increment ::
  "('w::len) word IncrementSelector \<Rightarrow> selector_fault + 'w word IncrementSelector" where
  "IncrementSelector_increment s =
     (let setting0 = Selector_get s;
          setting1 = setting0 + 1;
          setting2 = (if setting1 = Selector_getNumberOfSettings s
                      then (if wrap s then 0 else setting1 - 1)
                      else setting1)
      in Selector_set setting2 s)"

definition IncrementSelector_update ::
  "IncrementButton_State \<Rightarrow> ('w::len) word IncrementSelector
     \<Rightarrow> selector_fault + 'w word IncrementSelector" where
  "IncrementSelector_update buttonState s =
     (if buttonState = Increment then IncrementSelector_increment s else Inr s)"

section \<open>ShiftRegisterIn\<close>

text \<open>
  The types \<open>pin_t\<close>, \<open>analog_t\<close>, \<open>PinMode_t\<close> and \<open>PinStatus_t\<close> come from headers that
  are not among the sources; pins and analog values are unsigned numbers.
\<close>

type_synonym pin_t = nat
type_synonym analog_t = nat

datatype PinStatus_t = LOW | HIGH
datatype PinMode_t = INPUT | OUTPUT | INPUT_PULLUP
datatype BitOrder = LSBFIRST | MSBFIRST

text \<open>
  The class talks to the hardware through \<open>ExtIO::pinMode\<close>, \<open>ExtIO::digitalWrite\<close> and
  the Arduino function \<open>shiftIn\<close>. None of them is part of the sources: every call is
  recorded, in order, in a log, so that hardware activity is visible in the state.
\<close>

datatype hw_call =
  PinModeCall pin_t PinMode_t
| DigitalWriteCall pin_t PinStatus_t
| ShiftInCall pin_t pin_t BitOrder

text \<open>
  The members of the class, and \<open>hw\<close>, the log of the hardware calls made so far (not a
  member). The template parameter \<open>N\<close> is used by the base class only, to reserve the pin
  numbers: no member function of the class reads it.
\<close>

record ShiftRegisterIn =
  dataPin :: pin_t
  clockPin :: pin_t
  clockEnablePin :: pin_t
  loadPin :: pin_t
  buffer :: uint8_t
  hw :: "hw_call list"

definition ExtIO_pinMode :: "pin_t \<Rightarrow> PinMode_t \<Rightarrow> ShiftRegisterIn \<Rightarrow> ShiftRegisterIn" where
  "ExtIO_pinMode pin mode s = s\<lparr>hw := hw s @ [PinModeCall pin mode]\<rparr>"

definition ExtIO_digitalWrite :: "pin_t \<Rightarrow> PinStatus_t \<Rightarrow> ShiftRegisterIn \<Rightarrow> ShiftRegisterIn" where
  "ExtIO_digitalWrite pin val s = s\<lparr>hw := hw s @ [DigitalWriteCall pin val]\<rparr>"

text \<open>
  Modelled from the spec: \<open>bitRead\<close> is an Arduino macro, not among the sources; it returns
  bit \<open>n\<close> of the value, \<open>(value >> n) & 1\<close>.
\<close>

definition bitRead :: "uint8_t \<Rightarrow> nat \<Rightarrow> int" where
  "bitRead val n = uint (drop_bit n val AND 1)"

definition ShiftRegisterIn_pinMode ::
  "pin_t \<Rightarrow> PinMode_t \<Rightarrow> ShiftRegisterIn \<Rightarrow> ShiftRegisterIn" where
  "ShiftRegisterIn_pinMode pin mode s = ExtIO_pinMode (dataPin s) mode s"

definition ShiftRegisterIn_pinModeBuffered ::
  "pin_t \<Rightarrow> PinMode_t \<Rightarrow> ShiftRegisterIn \<Rightarrow> ShiftRegisterIn" where
  "ShiftRegisterIn_pinModeBuffered pin mode s = ShiftRegisterIn_pinMode (dataPin s) mode s"

definition ShiftRegisterIn_digitalWrite ::
  "pin_t \<Rightarrow> PinStatus_t \<Rightarrow> ShiftRegisterIn \<Rightarrow> ShiftRegisterIn" where
  "ShiftRegisterIn_digitalWrite pin val s = s"

definition ShiftRegisterIn_digitalWriteBuffered ::
  "pin_t \<Rightarrow> PinStatus_t \<Rightarrow> ShiftRegisterIn \<Rightarrow> ShiftRegisterIn" where
  "ShiftRegisterIn_digitalWriteBuffered pin val s = s"

definition ShiftRegisterIn_digitalRead :: "pin_t \<Rightarrow> ShiftRegisterIn \<Rightarrow> int \<times> ShiftRegisterIn" where
  "ShiftRegisterIn_digitalRead pin s = (bitRead (buffer s) pin, s)"

definition ShiftRegisterIn_digitalReadBuffered ::
  "pin_t \<Rightarrow> ShiftRegisterIn \<Rightarrow> int \<times> ShiftRegisterIn" where
  "ShiftRegisterIn_digitalReadBuffered pin s = (bitRead (buffer s) pin, s)"

definition ShiftRegisterIn_analogRead :: "pin_t \<Rightarrow> ShiftRegisterIn \<Rightarrow> analog_t \<times> ShiftRegisterIn" where
  "ShiftRegisterIn_analogRead pin s = (0, s)"

definition ShiftRegisterIn_analogReadBuffered ::
  "pin_t \<Rightarrow> ShiftRegisterIn \<Rightarrow> analog_t \<times> ShiftRegisterIn" where
  "ShiftRegisterIn_analogReadBuffered pin s = ShiftRegisterIn_analogRead pin s"

definition ShiftRegisterIn_analogWrite ::
  "pin_t \<Rightarrow> analog_t \<Rightarrow> ShiftRegisterIn \<Rightarrow> ShiftRegisterIn" where
  "ShiftRegisterIn_analogWrite pin val s = s"

definition ShiftRegisterIn_analogWriteBuffered ::
  "pin_t \<Rightarrow> analog_t \<Rightarrow> ShiftRegisterIn \<Rightarrow> ShiftRegisterIn" where
  "ShiftRegisterIn_analogWriteBuffered pin val s = s"

definition ShiftRegisterIn_begin :: "ShiftRegisterIn \<Rightarrow> ShiftRegisterIn" where
  "ShiftRegisterIn_begin s =
     (let s1 = ExtIO_pinMode (clockPin s) OUTPUT s;
          s2 = ExtIO_pinMode (clockEnablePin s1) OUTPUT s1;
          s3 = ExtIO_pinMode (loadPin s2) OUTPUT s2;
          s4 = ExtIO_digitalWrite (clockPin s3) LOW s3;
          s5 = ExtIO_digitalWrite (loadPin s4) HIGH s4
      in ExtIO_digitalWrite (clockEnablePin s5) HIGH s5)"

definition ShiftRegisterIn_updateBufferedOutputs :: "ShiftRegisterIn \<Rightarrow> ShiftRegisterIn" where
  "ShiftRegisterIn_updateBufferedOutputs s = s"

definition prepareReading :: "ShiftRegisterIn \<Rightarrow> ShiftRegisterIn" where
  "prepareReading s =
     (let s1 = ExtIO_digitalWrite (loadPin s) LOW s;
          s2 = ExtIO_digitalWrite (loadPin s1) HIGH s1
      in ExtIO_digitalWrite (clockEnablePin s2) LOW s2)"

definition afterReading :: "ShiftRegisterIn \<Rightarrow> ShiftRegisterIn" where
  "afterReading s = ExtIO_digitalWrite (clockEnablePin s) HIGH s"

text \<open>
  \<open>shiftIn\<close> is the Arduino function; the value it returns for a data pin, a clock pin and
  a bit order is what the register delivers, that is, the state of the physical inputs.
  It is the parameter \<open>shiftIn\<close> of the refresh.
\<close>

definition ShiftRegisterIn_updateBufferedInputs ::
  "(pin_t \<Rightarrow> pin_t \<Rightarrow> BitOrder \<Rightarrow> uint8_t) \<Rightarrow> ShiftRegisterIn \<Rightarrow> ShiftRegisterIn" where
  "ShiftRegisterIn_updateBufferedInputs shiftIn s =
     (let s1 = prepareReading s;
          s2 = s1\<lparr>buffer := shiftIn (dataPin s1) (clockPin s1) LSBFIRST,
                  hw := hw s1 @ [ShiftInCall (dataPin s1) (clockPin s1) LSBFIRST]\<rparr>
      in afterReading s2)"

subsection \<open>Sequences of calls\<close>

text \<open>The write family, and every public member function, as values; return values are dropped.\<close>

datatype write_call =
  DigitalWrite pin_t PinStatus_t
| DigitalWriteBuffered pin_t PinStatus_t
| AnalogWrite pin_t analog_t
| AnalogWriteBuffered pin_t analog_t

fun write_family :: "write_call \<Rightarrow> ShiftRegisterIn \<Rightarrow> ShiftRegisterIn" where
  "write_family (DigitalWrite pin val) s = ShiftRegisterIn_digitalWrite pin val s"
| "write_family (DigitalWriteBuffered pin val) s = ShiftRegisterIn_digitalWriteBuffered pin val s"
| "write_family (AnalogWrite pin val) s = ShiftRegisterIn_analogWrite pin val s"
| "write_family (AnalogWriteBuffered pin val) s = ShiftRegisterIn_analogWriteBuffered pin val s"

datatype call =
  PinMode pin_t PinMode_t
| PinModeBuffered pin_t PinMode_t
| Write write_call
| DigitalRead pin_t
| DigitalReadBuffered pin_t
| AnalogRead pin_t
| AnalogReadBuffered pin_t
| Begin
| UpdateBufferedOutputs
| UpdateBufferedInputs

fun exec :: "(pin_t \<Rightarrow> pin_t \<Rightarrow> BitOrder \<Rightarrow> uint8_t) \<Rightarrow> call \<Rightarrow> ShiftRegisterIn \<Rightarrow> ShiftRegisterIn" where
  "exec shiftIn (PinMode pin mode) s = ShiftRegisterIn_pinMode pin mode s"
| "exec shiftIn (PinModeBuffered pin mode) s = ShiftRegisterIn_pinModeBuffered pin mode s"
| "exec shiftIn (Write w) s = write_family w s"
| "exec shiftIn (DigitalRead pin) s = snd (ShiftRegisterIn_digitalRead pin s)"
| "exec shiftIn (DigitalReadBuffered pin) s = snd (ShiftRegisterIn_digitalReadBuffered pin s)"
| "exec shiftIn (AnalogRead pin) s = snd (ShiftRegisterIn_analogRead pin s)"
| "exec shiftIn (AnalogReadBuffered pin) s = snd (ShiftRegisterIn_analogReadBuffered pin s)"
| "exec shiftIn Begin s = ShiftRegisterIn_begin s"
| "exec shiftIn UpdateBufferedOutputs s = ShiftRegisterIn_updateBufferedOutputs s"
| "exec shiftIn UpdateBufferedInputs s = ShiftRegisterIn_updateBufferedInputs shiftIn s"


fun is_write :: "call \<Rightarrow> bool" where
  "is_write (Write w) = True"
| "is_write c = False"

section \<open>Properties of the rotary encoder\<close>

subsection \<open>Truncating division\<close>

lemma div_mult_bounds:
  fixes a b :: int
  assumes "0 \<le> a" "0 < b"
  shows "0 \<le> a div b * b" "a div b * b \<le> a"
proof -
  have "0 \<le> a div b" using assms by (simp add: pos_imp_zdiv_nonneg_iff)
  then show "0 \<le> a div b * b" using assms by simp
  have "a div b * b + a mod b = a" by simp
  moreover have "0 \<le> a mod b" using assms by simp
  ultimately show "a div b * b \<le> a" by linarith
qed

lemma tdiv_nonneg:
  assumes "0 \<le> a" "0 < b"
  shows "tdiv a b = a div b"
  using assms by (simp add: tdiv_def)

lemma tdiv_neg:
  assumes "a < 0" "0 < b"
  shows "tdiv a b = - ((- a) div b)"
  using assms by (simp add: tdiv_def)

lemma tdiv_mult_between:
  assumes "0 < b"
  shows "(0 \<le> a \<longrightarrow> 0 \<le> tdiv a b * b \<and> tdiv a b * b \<le> a) \<and>
         (a \<le> 0 \<longrightarrow> a \<le> tdiv a b * b \<and> tdiv a b * b \<le> 0)"
proof (cases "0 \<le> a")
  case True
  then show ?thesis
    using div_mult_bounds [of a b] assms by (auto simp: tdiv_nonneg)
next
  case False
  then have neg: "a < 0" by simp
  have "0 \<le> (- a) div b * b" "(- a) div b * b \<le> - a"
    using div_mult_bounds [of "- a" b] neg assms by simp_all
  then show ?thesis
    using neg assms by (simp add: tdiv_neg)
qed

lemma tdiv_between:
  assumes "0 < b"
  shows "(0 \<le> a \<longrightarrow> 0 \<le> tdiv a b \<and> tdiv a b \<le> a) \<and>
         (a \<le> 0 \<longrightarrow> a \<le> tdiv a b \<and> tdiv a b \<le> 0)"
proof (cases "0 \<le> a")
  case True
  have "a div b \<le> a div 1" using True assms by (intro zdiv_mono2) simp_all
  moreover have "0 \<le> a div b" using True assms by (simp add: pos_imp_zdiv_nonneg_iff)
  ultimately show ?thesis using True assms by (simp add: tdiv_nonneg)
next
  case False
  then have neg: "a < 0" by simp
  have "(- a) div b \<le> (- a) div 1" using neg assms by (intro zdiv_mono2) simp_all
  moreover have "0 \<le> (- a) div b" using neg assms by (simp add: pos_imp_zdiv_nonneg_iff)
  ultimately show ?thesis using neg assms by (simp add: tdiv_neg)
qed

text \<open>What truncation leaves over is smaller than the divisor, on either side of zero.\<close>

lemma tdiv_remainder:
  assumes "0 < b"
  shows "\<bar>a - tdiv a b * b\<bar> < b"
proof (cases "0 \<le> a")
  case True
  have "a - a div b * b = a mod b" by (simp add: minus_div_mult_eq_mod)
  moreover have "0 \<le> a mod b" "a mod b < b" using assms by simp_all
  ultimately show ?thesis using True assms by (simp add: tdiv_nonneg)
next
  case False
  then have neg: "a < 0" by simp
  have "- a - (- a) div b * b = (- a) mod b" by (simp add: minus_div_mult_eq_mod)
  moreover have "0 \<le> (- a) mod b" "(- a) mod b < b" using assms by simp_all
  ultimately have "\<bar>a + (- a) div b * b\<bar> < b" by linarith
  then show ?thesis using neg assms by (simp add: tdiv_neg)
qed

subsection \<open>The range of \<open>long\<close>\<close>

lemma in_long_between:
  assumes "in_long lb x" "in_long lb y" "x \<le> z" "z \<le> y"
  shows "in_long lb z"
  using assms by (simp add: in_long_def)

lemma in_long_zero: "in_long lb 0"
  by (simp add: in_long_def LONG_MIN_def LONG_MAX_def)

lemma uint_pos_iff: "0 < uint (w :: uint8_t) \<longleftrightarrow> w \<noteq> 0"
  by (simp add: uint_0_iff order_less_le)

lemma quotient_in_long:
  assumes "0 < b" "in_long lb a"
  shows "in_long lb (tdiv a b)" "in_long lb (tdiv a b * b)"
proof -
  have z: "in_long lb 0" by (rule in_long_zero)
  show "in_long lb (tdiv a b)"
  proof (cases "0 \<le> a")
    case True
    then have "0 \<le> tdiv a b" "tdiv a b \<le> a" using tdiv_between [OF assms(1), of a] by simp_all
    then show ?thesis using in_long_between [OF z assms(2)] by simp
  next
    case False
    then have "a \<le> tdiv a b" "tdiv a b \<le> 0" using tdiv_between [OF assms(1), of a] by simp_all
    then show ?thesis using in_long_between [OF assms(2) z] by simp
  qed
  show "in_long lb (tdiv a b * b)"
  proof (cases "0 \<le> a")
    case True
    then have "0 \<le> tdiv a b * b" "tdiv a b * b \<le> a"
      using tdiv_mult_between [OF assms(1), of a] by simp_all
    then show ?thesis using in_long_between [OF z assms(2)] by simp
  next
    case False
    then have "a \<le> tdiv a b * b" "tdiv a b * b \<le> 0"
      using tdiv_mult_between [OF assms(1), of a] by simp_all
    then show ?thesis using in_long_between [OF assms(2) z] by simp
  qed
qed

text \<open>The advanced position lies between the previous and the current one.\<close>

lemma advance_in_long:
  assumes b_pos: "0 < b" and cur: "in_long lb p" and prev: "in_long lb q"
  shows "in_long lb (q + tdiv (p - q) b * b)"
proof (cases "0 \<le> p - q")
  case True
  then have "q \<le> q + tdiv (p - q) b * b" "q + tdiv (p - q) b * b \<le> p"
    using tdiv_mult_between [OF b_pos, of "p - q"] by simp_all
  then show ?thesis using in_long_between [OF prev cur] by simp
next
  case False
  then have "p \<le> q + tdiv (p - q) b * b" "q + tdiv (p - q) b * b \<le> q"
    using tdiv_mult_between [OF b_pos, of "p - q"] by simp_all
  then show ?thesis using in_long_between [OF cur prev] by simp
qed

subsection \<open>One poll\<close>

lemma update_steps:
  assumes sub: "in_long lb (p - q)"
    and b_nz: "b \<noteq> 0"
    and quot: "in_long lb (tdiv (p - q) b)"
    and mul: "in_long lb (tdiv (p - q) b * m)"
    and adv: "in_long lb (tdiv (p - q) b * b)"
    and new: "in_long lb (q + tdiv (p - q) b * b)"
    and q: "previousPosition e = q" and b: "uint (pulsesPerStep e) = b"
    and m: "uint (speedMultiply e) = m"
  shows "MIDIRotaryEncoder_update lb bank p e =
     (if tdiv (p - q) b = 0 then Inr (None, e)
      else Inr (Some (tdiv (p - q) b * m, address e + index bank * stride (config e)),
                e\<lparr>previousPosition := q + tdiv (p - q) b * b\<rparr>))"
  using sub b_nz quot mul adv new
  by (simp add: MIDIRotaryEncoder_update_def q b m long_sub_def long_div_def long_mul_def
      long_add_def to_long_def getAddressOffset_def)

text \<open>
  With a nonzero divisor, positions in range, and the difference and the scaled value in
  range, no operation of \<open>update\<close> faults: the quotient, the advance and the new
  position are in range by themselves.
\<close>

lemma update_in_range:
  assumes pps: "pulsesPerStep e \<noteq> 0"
    and cur: "in_long lb p"
    and prev: "in_long lb (previousPosition e)"
    and sub: "in_long lb (p - previousPosition e)"
    and mul: "in_long lb (tdiv (p - previousPosition e) (uint (pulsesPerStep e)) * uint (speedMultiply e))"
  shows "MIDIRotaryEncoder_update lb bank p e =
     (if tdiv (p - previousPosition e) (uint (pulsesPerStep e)) = 0 then Inr (None, e)
      else Inr (Some (tdiv (p - previousPosition e) (uint (pulsesPerStep e)) * uint (speedMultiply e),
                      address e + index bank * stride (config e)),
                e\<lparr>previousPosition := previousPosition e
                   + tdiv (p - previousPosition e) (uint (pulsesPerStep e)) * uint (pulsesPerStep e)\<rparr>))"
proof -
  have b_pos: "0 < uint (pulsesPerStep e)" using pps by (simp add: uint_pos_iff)
  then have b_nz: "uint (pulsesPerStep e) \<noteq> 0" by simp
  show ?thesis
    by (rule update_steps [OF sub b_nz quotient_in_long(1) [OF b_pos sub] mul
          quotient_in_long(2) [OF b_pos sub] advance_in_long [OF b_pos cur prev] refl refl refl])
qed



lemma update_zero_divisor:
  assumes "pulsesPerStep e = 0" "in_long lb (p - previousPosition e)"
  shows "MIDIRotaryEncoder_update lb bank p e = Inl DivisionByZero"
  using assms
  by (simp add: MIDIRotaryEncoder_update_def long_sub_def long_div_def to_long_def)

lemma update_divisor_fault:
  assumes "MIDIRotaryEncoder_update lb bank p e = Inl DivisionByZero"
  shows "pulsesPerStep e = 0"
  using assms
  by (auto simp: MIDIRotaryEncoder_update_def Let_def long_sub_def long_div_def long_mul_def
      long_add_def to_long_def uint_0_iff split: sum.splits if_splits)

text \<open>
  Claim C1. One poll at position \<open>p\<close> with previous position \<open>q\<close> computes
  \<open>delta = (p - q) / pulsesPerStep\<close>, truncated towards zero. If \<open>delta\<close> is zero, nothing
  is sent and the object is unchanged. Otherwise the value \<open>delta * speedMultiply\<close> is sent
  and \<open>previousPosition\<close> becomes \<open>q + delta * pulsesPerStep\<close>, not \<open>p\<close>. The divisor is
  nonzero and the arithmetic on \<open>long\<close> stays in range, as C++ requires for the
  computation to be defined.
\<close>

theorem encoder_update_step:
  assumes "pulsesPerStep e \<noteq> 0"
    and "in_long lb p" and "in_long lb (previousPosition e)"
    and "in_long lb (p - previousPosition e)"
    and "delta = tdiv (p - previousPosition e) (uint (pulsesPerStep e))"
    and "in_long lb (delta * uint (speedMultiply e))"
  shows "MIDIRotaryEncoder_update lb bank p e =
     (if delta = 0 then Inr (None, e)
      else Inr (Some (delta * uint (speedMultiply e), address e + index bank * stride (config e)),
                e\<lparr>previousPosition := previousPosition e + delta * uint (pulsesPerStep e)\<rparr>))"
  using update_in_range [OF assms(1-4), of bank] assms(5,6) by simp

text \<open>
  The example of the specification: \<open>pulsesPerStep = 4\<close>, \<open>speedMultiply = 2\<close>, a fresh
  object (previous position 0). A poll at position 3 sends nothing and changes nothing; a
  poll at position 6 sends the value 2 and sets the previous position to 4.
\<close>

theorem encoder_update_step_witness:
  "pulsesPerStep (new_MIDIRotaryEncoder \<lparr>stride = 1\<rparr> 10 2 4) \<noteq> 0 \<and>
   in_long 32 3 \<and> in_long 32 6 \<and> in_long 32 0 \<and> tdiv 3 4 = 0 \<and> tdiv 6 4 = 1 \<and>
   MIDIRotaryEncoder_update 32 \<lparr>index = 0\<rparr> 3 (new_MIDIRotaryEncoder \<lparr>stride = 1\<rparr> 10 2 4)
     = Inr (None, new_MIDIRotaryEncoder \<lparr>stride = 1\<rparr> 10 2 4) \<and>
   MIDIRotaryEncoder_update 32 \<lparr>index = 0\<rparr> 6 (new_MIDIRotaryEncoder \<lparr>stride = 1\<rparr> 10 2 4)
     = Inr (Some (2, 10), (new_MIDIRotaryEncoder \<lparr>stride = 1\<rparr> 10 2 4)\<lparr>previousPosition := 4\<rparr>)"
  using encoder_update_step [of "new_MIDIRotaryEncoder \<lparr>stride = 1\<rparr> 10 2 4" 32 3 0 "\<lparr>index = 0\<rparr>"]
    encoder_update_step [of "new_MIDIRotaryEncoder \<lparr>stride = 1\<rparr> 10 2 4" 32 6 1 "\<lparr>index = 0\<rparr>"]
  by (simp add: new_MIDIRotaryEncoder_def in_long_def LONG_MIN_def LONG_MAX_def tdiv_def)

text \<open>
  After a poll the distance between the position read and \<open>previousPosition\<close> is less than
  one step: the motion that did not make a whole step is carried over to the next poll.
\<close>

lemma update_remainder:
  assumes "pulsesPerStep e \<noteq> 0"
    and "in_long lb p" and "in_long lb (previousPosition e)"
    and "in_long lb (p - previousPosition e)"
    and "in_long lb (tdiv (p - previousPosition e) (uint (pulsesPerStep e)) * uint (speedMultiply e))"
  shows "\<exists>ev e'. MIDIRotaryEncoder_update lb bank p e = Inr (ev, e') \<and>
           \<bar>p - previousPosition e'\<bar> < uint (pulsesPerStep e)"
proof -
  have b_pos: "0 < uint (pulsesPerStep e)" using assms(1) by (simp add: uint_pos_iff)
  have rem: "\<bar>p - previousPosition e
      - tdiv (p - previousPosition e) (uint (pulsesPerStep e)) * uint (pulsesPerStep e)\<bar>
      < uint (pulsesPerStep e)"
    by (rule tdiv_remainder [OF b_pos])
  show ?thesis
  proof (cases "tdiv (p - previousPosition e) (uint (pulsesPerStep e)) = 0")
    case True
    then show ?thesis using update_in_range [OF assms, of bank] rem by simp
  next
    case False
    then show ?thesis
      using update_in_range [OF assms, of bank] rem by (simp add: algebra_simps)
  qed
qed

text \<open>
  The previous position starts at 0 and every poll that returns leaves it in the range of
  \<open>long\<close>: that it is in range is an invariant of the object.
\<close>

lemma new_position_in_range:
  "in_long lb (previousPosition (new_MIDIRotaryEncoder cfg addr sm pps))"
  by (simp add: new_MIDIRotaryEncoder_def in_long_zero)

lemma update_position_in_range:
  assumes "in_long lb (previousPosition e)"
    and "MIDIRotaryEncoder_update lb bank p e = Inr (ev, e')"
  shows "in_long lb (previousPosition e')"
  using assms
  by (auto simp: MIDIRotaryEncoder_update_def Let_def long_add_def to_long_def
      split: sum.splits if_splits)

subsection \<open>Division by zero\<close>

text \<open>
  Claim C10. With \<open>pulsesPerStep > 0\<close> no poll divides by zero. The constructor stores
  any \<open>pulsesPerStep\<close> it is given, 0 included, and \<open>update\<close> divides without a check:
  with \<open>pulsesPerStep = 0\<close> a poll whose subtraction is in range divides by zero.
\<close>

theorem encoder_division_by_zero:
  "(0 < uint (pulsesPerStep e) \<longrightarrow> MIDIRotaryEncoder_update lb bank p e \<noteq> Inl DivisionByZero) \<and>
   pulsesPerStep (new_MIDIRotaryEncoder cfg addr sm 0) = 0 \<and>
   (pulsesPerStep e' = 0 \<and> in_long lb (p' - previousPosition e') \<longrightarrow>
      MIDIRotaryEncoder_update lb bank' p' e' = Inl DivisionByZero)"
  using update_divisor_fault [of lb bank p e] update_zero_divisor [of e' lb p' bank']
  by (auto simp: new_MIDIRotaryEncoder_def)

theorem encoder_division_by_zero_witness:
  "0 < uint (pulsesPerStep (new_MIDIRotaryEncoder \<lparr>stride = 1\<rparr> 10 2 4)) \<and>
   MIDIRotaryEncoder_update 32 \<lparr>index = 0\<rparr> 6 (new_MIDIRotaryEncoder \<lparr>stride = 1\<rparr> 10 2 4)
     \<noteq> Inl DivisionByZero \<and>
   pulsesPerStep (new_MIDIRotaryEncoder \<lparr>stride = 1\<rparr> 10 2 0) = 0 \<and>
   in_long 32 (6 - previousPosition (new_MIDIRotaryEncoder \<lparr>stride = 1\<rparr> 10 2 0)) \<and>
   MIDIRotaryEncoder_update 32 \<lparr>index = 0\<rparr> 6 (new_MIDIRotaryEncoder \<lparr>stride = 1\<rparr> 10 2 0)
     = Inl DivisionByZero"
  using encoder_division_by_zero [of "new_MIDIRotaryEncoder \<lparr>stride = 1\<rparr> 10 2 4" 32
      "\<lparr>index = 0\<rparr>" 6 "\<lparr>stride = 1\<rparr>" 10 2 "new_MIDIRotaryEncoder \<lparr>stride = 1\<rparr> 10 2 0" 6 "\<lparr>index = 0\<rparr>"]
  by (simp add: new_MIDIRotaryEncoder_def in_long_def LONG_MIN_def LONG_MAX_def)

subsection \<open>The address of an emission\<close>



section \<open>Properties of the increment selector\<close>

lemma unat_succ_below:
  "unat (x :: 'w::len word) + 1 \<le> unat (n :: 'w word) \<Longrightarrow> unat (x + 1) = unat x + 1"
  by (metis le_unat_uoi unsigned_1 word_arith_nat_add)

text \<open>
  Taking 1 off the incremented setting gives the setting back, so clamping keeps it; the
  setting that \<open>increment\<close> hands to \<open>set\<close> is the one below.
\<close>

lemma increment_result:
  "IncrementSelector_increment s =
     Selector_set (if setting s + 1 = numberOfSettings s
                   then (if wrap s then 0 else setting s) else setting s + 1) s"
  by (simp add: IncrementSelector_increment_def Selector_get_def
      Selector_getNumberOfSettings_def Let_def split del: if_split cong del: if_weak_cong)

lemma Selector_set_in_range:
  "newSetting < numberOfSettings s \<Longrightarrow> Selector_set newSetting s = Inr (s\<lparr>setting := newSetting\<rparr>)"
  by (simp add: Selector_set_def)

lemma Selector_set_no_settings:
  "numberOfSettings s = 0 \<Longrightarrow> Selector_set newSetting s = Inl SettingOutOfRange"
  by (simp add: Selector_set_def)

text \<open>
  Claim C3. With \<open>n\<close> settings and a valid index \<open>i < n\<close>, one increment event is accepted
  and moves the index to \<open>i + 1\<close> if that is below \<open>n\<close>; otherwise (\<open>i + 1 = n\<close>) to 0 with
  \<open>wrap\<close>, and to \<open>n - 1\<close>, where it was, without. The number of settings and the flag
  stay.
\<close>

theorem increment_selector_step:
  assumes "unat (setting s) < unat (numberOfSettings s)"
  shows "\<exists>s'. IncrementSelector_update Increment s = Inr s' \<and>
           unat (setting s') =
             (if unat (setting s) + 1 < unat (numberOfSettings s) then unat (setting s) + 1
              else if wrap s then 0 else unat (numberOfSettings s) - 1) \<and>
           numberOfSettings s' = numberOfSettings s \<and>
           wrap s' = wrap s"
proof -
  have succ: "unat (setting s + 1) = unat (setting s) + 1"
    using assms by (intro unat_succ_below [of _ "numberOfSettings s"]) simp
  have valid: "setting s < numberOfSettings s"
    using assms by (simp add: word_less_nat_alt)
  have some: "0 < numberOfSettings s"
    using assms by (simp add: word_less_nat_alt)
  show ?thesis
  proof (cases "unat (setting s) + 1 < unat (numberOfSettings s)")
    case True
    then have below: "setting s + 1 < numberOfSettings s"
      using succ by (simp add: word_less_nat_alt)
    then have "setting s + 1 \<noteq> numberOfSettings s" by auto
    then show ?thesis
      using True succ Selector_set_in_range [OF below]
      by (simp add: IncrementSelector_update_def increment_result)
  next
    case False
    then have "unat (setting s + 1) = unat (numberOfSettings s)" using assms succ by simp
    then have full: "setting s + 1 = numberOfSettings s" by (simp only: word_unat_eq_iff)
    show ?thesis
    proof (cases "wrap s")
      case True
      then show ?thesis
        using False full Selector_set_in_range [OF some]
        by (simp add: IncrementSelector_update_def increment_result)
    next
      case off: False
      then show ?thesis
        using False assms full Selector_set_in_range [OF valid]
        by (simp add: IncrementSelector_update_def increment_result)
    qed
  qed
qed

text \<open>
  Four settings, 8-bit \<open>setting_t\<close>: from index 3 to 0 with \<open>wrap\<close>, from 3 to 3 without,
  from 1 to 2.
\<close>

theorem increment_selector_step_witness:
  "unat (setting \<lparr>setting = 3 :: 8 word, numberOfSettings = 4, wrap = True\<rparr>)
     < unat (numberOfSettings \<lparr>setting = 3 :: 8 word, numberOfSettings = 4, wrap = True\<rparr>) \<and>
   IncrementSelector_update Increment \<lparr>setting = 3 :: 8 word, numberOfSettings = 4, wrap = True\<rparr>
     = Inr \<lparr>setting = 0, numberOfSettings = 4, wrap = True\<rparr> \<and>
   IncrementSelector_update Increment \<lparr>setting = 3 :: 8 word, numberOfSettings = 4, wrap = False\<rparr>
     = Inr \<lparr>setting = 3, numberOfSettings = 4, wrap = False\<rparr> \<and>
   IncrementSelector_update Increment \<lparr>setting = 1 :: 8 word, numberOfSettings = 4, wrap = False\<rparr>
     = Inr \<lparr>setting = 2, numberOfSettings = 4, wrap = False\<rparr>"
  using increment_selector_step [of "\<lparr>setting = 3 :: 8 word, numberOfSettings = 4, wrap = True\<rparr>"]
    increment_selector_step [of "\<lparr>setting = 3 :: 8 word, numberOfSettings = 4, wrap = False\<rparr>"]
    increment_selector_step [of "\<lparr>setting = 1 :: 8 word, numberOfSettings = 4, wrap = False\<rparr>"]
  by (simp add: IncrementSelector_update_def increment_result Selector_set_def)




section \<open>Properties of the shift-register input\<close>

lemma bitRead_bit: "bitRead v n = (if bit v n then 1 else 0)"
  by (simp add: bitRead_def and_one_eq bit_iff_odd_drop_bit mod_2_eq_odd)

lemma write_family_id: "write_family w s = s"
  by (cases w)
    (simp_all add: ShiftRegisterIn_digitalWrite_def ShiftRegisterIn_digitalWriteBuffered_def
      ShiftRegisterIn_analogWrite_def ShiftRegisterIn_analogWriteBuffered_def)

lemma fold_write_family_id: "fold write_family ws s = s"
  by (induction ws) (simp_all add: write_family_id)

lemma prepareReading_expand:
  "prepareReading s =
     s\<lparr>hw := hw s @ [DigitalWriteCall (loadPin s) LOW, DigitalWriteCall (loadPin s) HIGH,
                      DigitalWriteCall (clockEnablePin s) LOW]\<rparr>"
  by (simp add: prepareReading_def ExtIO_digitalWrite_def)

text \<open>A refresh replaces the buffer and adds five hardware calls; the pins stay.\<close>

lemma updateBufferedInputs_expand:
  "ShiftRegisterIn_updateBufferedInputs shiftIn s =
     s\<lparr>buffer := shiftIn (dataPin s) (clockPin s) LSBFIRST,
       hw := hw s @ [DigitalWriteCall (loadPin s) LOW, DigitalWriteCall (loadPin s) HIGH,
                     DigitalWriteCall (clockEnablePin s) LOW,
                     ShiftInCall (dataPin s) (clockPin s) LSBFIRST,
                     DigitalWriteCall (clockEnablePin s) HIGH]\<rparr>"
  by (simp add: ShiftRegisterIn_updateBufferedInputs_def prepareReading_expand afterReading_def
      ExtIO_digitalWrite_def)

lemma exec_buffer:
  "buffer (exec shiftIn c s) =
     (if c = UpdateBufferedInputs then shiftIn (dataPin s) (clockPin s) LSBFIRST else buffer s)"
  by (cases c)
    (simp_all add: ShiftRegisterIn_pinMode_def ShiftRegisterIn_pinModeBuffered_def
      ExtIO_pinMode_def ExtIO_digitalWrite_def write_family_id ShiftRegisterIn_digitalRead_def
      ShiftRegisterIn_digitalReadBuffered_def ShiftRegisterIn_analogRead_def
      ShiftRegisterIn_analogReadBuffered_def ShiftRegisterIn_begin_def
      ShiftRegisterIn_updateBufferedOutputs_def updateBufferedInputs_expand)

text \<open>In any sequence of calls the write-family calls can be left out.\<close>

lemma fold_exec_skip_writes:
  "fold (exec shiftIn) cs s = fold (exec shiftIn) (filter (\<lambda>c. \<not> is_write c) cs) s"
proof (induction cs arbitrary: s)
  case Nil
  show ?case by simp
next
  case (Cons c cs)
  show ?case
  proof (cases c)
    case (Write w)
    then show ?thesis using Cons.IH [of s] by (simp add: write_family_id)
  qed (use Cons.IH in simp_all)
qed





text \<open>
  Claim C6. Any number of write-family calls, with any arguments, leaves the whole state
  as it was: the buffer, the pins and the log of hardware calls, so no control line has
  been driven. A \<open>digitalRead\<close> after them returns what it would have returned without
  them, and in any sequence of calls the write-family calls can be dropped without
  changing the final state.
\<close>

theorem write_family_no_effect:
  "fold write_family ws s = s \<and>
   ShiftRegisterIn_digitalRead pin (fold write_family ws s) = ShiftRegisterIn_digitalRead pin s \<and>
   fold (exec shiftIn) cs s = fold (exec shiftIn) (filter (\<lambda>c. \<not> is_write c) cs) s"
  using fold_exec_skip_writes [of shiftIn cs s] by (simp add: fold_write_family_id)

text \<open>
  Claim C7. \<open>digitalRead\<close> and \<open>digitalReadBuffered\<close> return the same value, bit \<open>pin\<close> of
  the buffer, and the same, unchanged state: no hardware call is logged and the buffer is
  not written. Of all member functions only the refresh changes the buffer.
\<close>

theorem digital_reads_agree:
  "ShiftRegisterIn_digitalRead pin s = ShiftRegisterIn_digitalReadBuffered pin s \<and>
   ShiftRegisterIn_digitalRead pin s = (if bit (buffer s) pin then 1 else 0, s) \<and>
   buffer (exec shiftIn c s) =
     (if c = UpdateBufferedInputs then shiftIn (dataPin s) (clockPin s) LSBFIRST else buffer s)"
  using exec_buffer [of shiftIn c s]
  by (simp add: ShiftRegisterIn_digitalRead_def ShiftRegisterIn_digitalReadBuffered_def bitRead_bit)

text \<open>
  Claim C8. \<open>analogRead\<close> and \<open>analogReadBuffered\<close> return 0 for every pin, as an ordinary
  result, and leave the state unchanged.
\<close>

theorem analog_reads_zero:
  "ShiftRegisterIn_analogRead pin s = (0, s) \<and> ShiftRegisterIn_analogReadBuffered pin s = (0, s)"
  by (simp add: ShiftRegisterIn_analogRead_def ShiftRegisterIn_analogReadBuffered_def)

text \<open>
  Claim C9. Two refreshes in a row, the physical inputs being the same (the same
  \<open>shiftIn\<close>), leave the same buffer after the second as after the first, and every
  \<open>digitalRead\<close> returns the same value.
\<close>

theorem refresh_idempotent:
  "buffer (ShiftRegisterIn_updateBufferedInputs shiftIn (ShiftRegisterIn_updateBufferedInputs shiftIn s))
     = buffer (ShiftRegisterIn_updateBufferedInputs shiftIn s) \<and>
   fst (ShiftRegisterIn_digitalRead pin
          (ShiftRegisterIn_updateBufferedInputs shiftIn (ShiftRegisterIn_updateBufferedInputs shiftIn s)))
     = fst (ShiftRegisterIn_digitalRead pin (ShiftRegisterIn_updateBufferedInputs shiftIn s))"
  by (simp add: updateBufferedInputs_expand ShiftRegisterIn_digitalRead_def)

end
